theory Spec2Isabelle
  imports Main "HOL-Library.Word" "HOL-Library.AList" "HOL-Library.Multiset"
begin

section \<open>Serialization codec\<close>

text \<open>
  The codec has two halves: \<open>serializeBody\<close> in \<^verbatim>\<open>src/content/bridge.ts\<close> turns a fetch
  body into the tagged union \<open>SerializedBody\<close>, and \<open>deserializeBody\<close> in
  \<^verbatim>\<open>src/sw/index.ts\<close> rebuilds a body from it. Strings are byte strings (UTF-8), a
  \<^verbatim>\<open>Uint8Array\<close> is a list of 8-bit words.
\<close>

type_synonym bytes = "8 word list"

subsection \<open>Platform values\<close>

text \<open>
  A \<^verbatim>\<open>Blob\<close> is its bytes and its \<^verbatim>\<open>type\<close>; a \<^verbatim>\<open>File\<close> has a name as well. The platform
  constructors normalise the type they are given: a type with a character outside
  U+0020..U+007E becomes the empty string, any other type is converted to ASCII lower case.
\<close>

record Blob =
  blob_bytes :: bytes
  blob_type :: string

record File =
  file_bytes :: bytes
  file_name :: string
  file_type :: string

definition ascii_lower :: "char \<Rightarrow> char" where
  "ascii_lower c =
     (if (65::nat) \<le> of_char c \<and> (of_char c :: nat) \<le> 90
      then char_of ((of_char c :: nat) + 32) else c)"

definition printable :: "char \<Rightarrow> bool" where
  "printable c = ((32::nat) \<le> of_char c \<and> (of_char c :: nat) \<le> 126)"

definition normalize_type :: "string \<Rightarrow> string" where
  "normalize_type t = (if list_all printable t then map ascii_lower t else [])"

definition new_Blob :: "bytes list \<Rightarrow> string \<Rightarrow> Blob" where
  "new_Blob parts t = \<lparr>blob_bytes = concat parts, blob_type = normalize_type t\<rparr>"

definition new_File :: "bytes list \<Rightarrow> string \<Rightarrow> string \<Rightarrow> File" where
  "new_File parts n t =
     \<lparr>file_bytes = concat parts, file_name = n, file_type = normalize_type t\<rparr>"

text \<open>An entry value of a \<^verbatim>\<open>FormData\<close> object is a string or a \<^verbatim>\<open>File\<close>.\<close>

datatype FormDataEntryValue = FormText string | FormFile File

text \<open>
  The body types \<^verbatim>\<open>fetch\<close> accepts. A typed-array view (or \<^verbatim>\<open>DataView\<close>) is its underlying
  buffer together with \<^verbatim>\<open>byteOffset\<close> and \<^verbatim>\<open>byteLength\<close>; it denotes the bytes
  \<open>take byteLength (drop byteOffset buffer)\<close>. \<open>BodyAbsent\<close> is \<^verbatim>\<open>null\<close> or \<^verbatim>\<open>undefined\<close>,
  \<open>BodyStream\<close> a \<^verbatim>\<open>ReadableStream\<close> that would yield the given bytes.
\<close>

datatype BodyInit =
    BodyAbsent
  | BodyString string
  | BodyURLSearchParams "(string \<times> string) list"
  | BodyFormData "(string \<times> FormDataEntryValue) list"
  | BodyBlob Blob
  | BodyArrayBuffer bytes
  | BodyView bytes nat nat
  | BodyStream bytes

text \<open>
  \<^verbatim>\<open>URLSearchParams.prototype.toString\<close>: the application/x-www-form-urlencoded serializer.
  Alphanumerics and \<^verbatim>\<open>*-._\<close> are kept, a space becomes \<^verbatim>\<open>+\<close>, every other byte becomes
  \<^verbatim>\<open>%XX\<close> in upper-case hexadecimal; name and value are joined by \<^verbatim>\<open>=\<close>, pairs by \<^verbatim>\<open>&\<close>.
\<close>

definition hex_digit :: "nat \<Rightarrow> char" where
  "hex_digit n = (if n < 10 then char_of (48 + n) else char_of (55 + n))"

definition form_safe :: "char \<Rightarrow> bool" where
  "form_safe c =
     (let n = (of_char c :: nat) in
        (48 \<le> n \<and> n \<le> 57) \<or> (65 \<le> n \<and> n \<le> 90) \<or> (97 \<le> n \<and> n \<le> 122)
        \<or> c = CHR ''*'' \<or> c = CHR ''-'' \<or> c = CHR ''.'' \<or> c = CHR ''_'')"

definition urlencode_byte :: "char \<Rightarrow> string" where
  "urlencode_byte c =
     (if form_safe c then [c]
      else if c = CHR '' '' then ''+''
      else [CHR ''%'', hex_digit ((of_char c :: nat) div 16), hex_digit ((of_char c :: nat) mod 16)])"

definition urlencode :: "string \<Rightarrow> string" where
  "urlencode s = concat (map urlencode_byte s)"

fun join_amp :: "string list \<Rightarrow> string" where
  "join_amp [] = []"
| "join_amp [x] = x"
| "join_amp (x # y # ys) = x @ ''&'' @ join_amp (y # ys)"

definition URLSearchParams_toString :: "(string \<times> string) list \<Rightarrow> string" where
  "URLSearchParams_toString ps =
     join_amp (map (\<lambda>(k, v). urlencode k @ ''='' @ urlencode v) ps)"

subsection \<open>The wire format\<close>

datatype FormDataEntryPayload =
    TextEntry string string
  | FileEntry string string "string option" bytes

datatype SerializedBody =
    SerNone
  | SerText string
  | SerArrayBuffer bytes
  | SerBlob bytes "string option"
  | SerFormData "FormDataEntryPayload list"

subsection \<open>\<open>serializeBody\<close> (bridge.ts, lines 339-378)\<close>

text \<open>
  The \<^verbatim>\<open>for\<close> loop over \<^verbatim>\<open>body.entries()\<close> pushes one payload per entry, in order. A string
  value gives a text entry; any other value is a \<^verbatim>\<open>File\<close>, read whole with
  \<^verbatim>\<open>arrayBuffer()\<close>.
\<close>

fun serializeEntry :: "string \<times> FormDataEntryValue \<Rightarrow> FormDataEntryPayload" where
  "serializeEntry (key, FormText v) = TextEntry key v"
| "serializeEntry (key, FormFile f) = FileEntry key (file_name f) (Some (file_type f)) (file_bytes f)"

text \<open>
  The tests run in the source's order. \<^verbatim>\<open>!body\<close> holds for \<^verbatim>\<open>null\<close>, \<^verbatim>\<open>undefined\<close> and the
  empty string. For a view the source takes \<^verbatim>\<open>body.buffer\<close>, the whole underlying buffer,
  and wraps it in a fresh \<^verbatim>\<open>Uint8Array\<close>; \<^verbatim>\<open>byteOffset\<close> and \<^verbatim>\<open>byteLength\<close> are not read.
  Anything else (a stream) falls through to \<^verbatim>\<open>{ type: 'none' }\<close>.
\<close>

fun serializeBody :: "BodyInit \<Rightarrow> SerializedBody" where
  "serializeBody BodyAbsent = SerNone"
| "serializeBody (BodyString s) = (if s = [] then SerNone else SerText s)"
| "serializeBody (BodyURLSearchParams ps) = SerText (URLSearchParams_toString ps)"
| "serializeBody (BodyFormData es) = SerFormData (map serializeEntry es)"
| "serializeBody (BodyBlob b) = SerBlob (blob_bytes b) (Some (blob_type b))"
| "serializeBody (BodyArrayBuffer buf) = SerArrayBuffer buf"
| "serializeBody (BodyView buf off len) = SerArrayBuffer buf"
| "serializeBody (BodyStream bs) = SerNone"

subsection \<open>\<open>deserializeBody\<close> (sw/index.ts, lines 223-250)\<close>

text \<open>\<^verbatim>\<open>mime || ''\<close>: a missing or empty mime is the empty string.\<close>

definition mime_or_empty :: "string option \<Rightarrow> string" where
  "mime_or_empty m = (case m of None \<Rightarrow> [] | Some t \<Rightarrow> t)"

fun deserializeEntry :: "FormDataEntryPayload \<Rightarrow> string \<times> FormDataEntryValue" where
  "deserializeEntry (TextEntry key v) = (key, FormText v)"
| "deserializeEntry (FileEntry key n m buf) = (key, FormFile (new_File [buf] n (mime_or_empty m)))"

text \<open>
  \<^verbatim>\<open>undefined\<close> is \<open>BodyAbsent\<close>. The \<^verbatim>\<open>arrayBuffer\<close> case returns the \<^verbatim>\<open>Uint8Array\<close> itself: a
  view at offset 0 over all of its bytes. \<^verbatim>\<open>forEach\<close> appends the entries in order.
\<close>

fun deserializeBody :: "SerializedBody \<Rightarrow> BodyInit" where
  "deserializeBody SerNone = BodyAbsent"
| "deserializeBody (SerText v) = BodyString v"
| "deserializeBody (SerArrayBuffer buf) = BodyView buf 0 (length buf)"
| "deserializeBody (SerBlob buf m) = BodyBlob (new_Blob [buf] (mime_or_empty m))"
| "deserializeBody (SerFormData entries) = BodyFormData (map deserializeEntry entries)"

subsection \<open>What a body puts on the wire\<close>

text \<open>
  The content a body stands for when \<^verbatim>\<open>fetch\<close> sends it: its bytes and, for a blob, its
  mime type; for a multipart form, the ordered fields, each a text value or a file with
  name, mime type and bytes.
\<close>

datatype wire_part = TextPart string | FilePart string string bytes

datatype wire_content =
    WireBytes bytes "string option"
  | WireForm "(string \<times> wire_part) list"

definition utf8 :: "string \<Rightarrow> bytes" where
  "utf8 s = map of_char s"

fun entry_content :: "string \<times> FormDataEntryValue \<Rightarrow> string \<times> wire_part" where
  "entry_content (key, FormText v) = (key, TextPart v)"
| "entry_content (key, FormFile f) = (key, FilePart (file_name f) (file_type f) (file_bytes f))"

fun body_content :: "BodyInit \<Rightarrow> wire_content" where
  "body_content BodyAbsent = WireBytes [] None"
| "body_content (BodyString s) = WireBytes (utf8 s) None"
| "body_content (BodyURLSearchParams ps) = WireBytes (utf8 (URLSearchParams_toString ps)) None"
| "body_content (BodyFormData es) = WireForm (map entry_content es)"
| "body_content (BodyBlob b) = WireBytes (blob_bytes b) (Some (blob_type b))"
| "body_content (BodyArrayBuffer buf) = WireBytes buf None"
| "body_content (BodyView buf off len) = WireBytes (take len (drop off buf)) None"
| "body_content (BodyStream bs) = WireBytes bs None"

text \<open>
  Values the platform can hand to the codec: the type of a blob or file is already
  normalised, and a view lies inside its buffer.
\<close>

fun wf_entry :: "string \<times> FormDataEntryValue \<Rightarrow> bool" where
  "wf_entry (key, FormText v) = True"
| "wf_entry (key, FormFile f) = (normalize_type (file_type f) = file_type f)"

fun wf_body :: "BodyInit \<Rightarrow> bool" where
  "wf_body (BodyFormData es) = list_all wf_entry es"
| "wf_body (BodyBlob b) = (normalize_type (blob_type b) = blob_type b)"
| "wf_body (BodyView buf off len) = (off + len \<le> length buf)"
| "wf_body _ = True"

text \<open>A view that covers its whole buffer; every body that is not a view counts as such.\<close>

fun whole_buffer :: "BodyInit \<Rightarrow> bool" where
  "whole_buffer (BodyView buf off len) = (off = 0 \<and> len = length buf)"
| "whole_buffer _ = True"

fun is_stream :: "BodyInit \<Rightarrow> bool" where
  "is_stream (BodyStream bs) = True"
| "is_stream _ = False"

section \<open>Page-side interceptor (bridge.ts)\<close>

definition BRIDGE_SCOPE :: string where "BRIDGE_SCOPE = ''pagespy-bridge''"
definition BRIDGE_FETCH :: string where "BRIDGE_FETCH = ''pagespy:fetch''"
definition WS_OPEN :: string where "WS_OPEN = ''pagespy:ws-open''"
definition WS_SEND :: string where "WS_SEND = ''pagespy:ws-send''"
definition WS_CLOSE :: string where "WS_CLOSE = ''pagespy:ws-close''"

text \<open>A thrown \<^verbatim>\<open>Error\<close> is its message. A function that can throw returns \<open>Inl\<close> of the error.\<close>

datatype js_error = JsError string

fun message :: "js_error \<Rightarrow> string" where
  "message (JsError m) = m"

text \<open>The ready-state constants of \<^verbatim>\<open>WebSocket\<close>.\<close>

definition CONNECTING :: nat where "CONNECTING = 0"
definition OPEN :: nat where "OPEN = 1"
definition CLOSING :: nat where "CLOSING = 2"
definition CLOSED :: nat where "CLOSED = 3"

subsection \<open>Messages\<close>

text \<open>Data carried by a socket: text, a \<^verbatim>\<open>Uint8Array\<close>, an \<^verbatim>\<open>ArrayBuffer\<close>, a blob, or \<^verbatim>\<open>null\<close>.\<close>

datatype ws_data =
    WsText string
  | WsUint8Array bytes
  | WsArrayBuffer bytes
  | WsBlob Blob
  | WsNull

text \<open>
  \<^verbatim>\<open>data.payload\<close> of an incoming bridge message is untyped in the source. The record holds
  every property the handlers read: those of a fetch response (\<^verbatim>\<open>FetchResponsePayload\<close>) and
  those of a socket event. A property that may be missing is an option.
\<close>

record bridge_payload =
  pl_ok :: "bool option"
  pl_status :: int
  pl_statusText :: string
  pl_headers :: "(string \<times> string) list"
  pl_body :: string
  pl_error :: "string option"
  pl_wsId :: "string option"
  pl_event :: "string option"
  pl_data :: ws_data
  pl_code :: "int option"
  pl_reason :: "string option"
  pl_wasClean :: "bool option"

text \<open>\<^verbatim>\<open>event.data\<close> of a window message.\<close>

record bridge_data =
  bd_scope :: string
  bd_type :: string
  bd_requestId :: "string option"
  bd_payload :: "bridge_payload option"
  bd_error :: "string option"

type_synonym SerializedHeaders = "(string \<times> string) list"

record SerializedInit =
  si_headers :: "SerializedHeaders option"
  si_method :: "string option"
  si_credentials :: "string option"
  si_body :: "SerializedBody option"

text \<open>What the page posts with \<^verbatim>\<open>window.postMessage\<close>: scope, type and the other fields.\<close>

datatype posted_fields =
    FetchFields string string SerializedInit
  | OpenFields string string "string list"
  | SendFields string ws_data
  | CloseFields string "int option" "string option"

datatype posted_message = Posted string string posted_fields

subsection \<open>State\<close>

text \<open>
  A pending fetch holds the \<^verbatim>\<open>resolve\<close> and \<^verbatim>\<open>reject\<close> functions of one promise; the promise
  is a number, and \<open>settled\<close> lists every call of such a function with its argument, in
  order. The events a socket dispatches are listed in \<open>dispatched\<close>: a call of an
  \<^verbatim>\<open>on*\<close> property handler, then \<^verbatim>\<open>dispatchEvent\<close>. What the page's handlers do when called
  is page code, outside this program.
\<close>

datatype settlement = Resolved "bridge_payload option" | Rejected js_error

datatype dom_event =
    OpenEvent
  | MessageEvent ws_data
  | ErrorEvent
  | CloseEvent "int option" "string option" bool

datatype dispatch = HandlerCall nat string dom_event | DispatchEvent nat dom_event

text \<open>
  The fields of a \<^verbatim>\<open>BridgeWebSocket\<close>; \<open>onopen\<close> ... \<open>onclose\<close> say whether a function is
  assigned to the property.
\<close>

record BridgeWebSocket =
  readyState :: nat
  url :: string
  protocol :: string
  binaryType :: string
  wsId :: string
  onopen :: bool
  onmessage :: bool
  onerror :: bool
  onclose :: bool

text \<open>
  Socket objects live in a heap indexed by reference; \<open>socketMap\<close> maps a socket id to the
  reference of its object, so a socket removed from the table is still the object the page
  holds.
\<close>

record page_state =
  pendingFetches :: "string \<rightharpoonup> nat"
  socketMap :: "string \<rightharpoonup> nat"
  heap :: "nat \<Rightarrow> BridgeWebSocket"
  posted :: "posted_message list"
  settled :: "(nat \<times> settlement) list"
  dispatched :: "dispatch list"

definition postMessage :: "posted_message \<Rightarrow> page_state \<Rightarrow> page_state" where
  "postMessage m s = s\<lparr>posted := posted s @ [m]\<rparr>"

definition set_readyState :: "nat \<Rightarrow> nat \<Rightarrow> page_state \<Rightarrow> page_state" where
  "set_readyState this v s = s\<lparr>heap := (heap s)(this := (heap s this)\<lparr>readyState := v\<rparr>)\<rparr>"

subsection \<open>Proxied fetch (lines 151-171)\<close>

text \<open>
  The part of \<open>createProxiedFetch\<close> between \<^verbatim>\<open>genId\<close> and \<^verbatim>\<open>await responsePromise\<close>: the
  executor of the new promise \<open>p\<close> stores its resolvers under \<open>requestId\<close>, then the request
  is posted. \<open>requestId\<close> is the value of \<^verbatim>\<open>genId('fetch')\<close> and \<open>init\<close> that of
  \<^verbatim>\<open>serializeInit\<close>.
\<close>

definition createProxiedFetch ::
  "string \<Rightarrow> nat \<Rightarrow> string \<Rightarrow> SerializedInit \<Rightarrow> page_state \<Rightarrow> page_state" where
  "createProxiedFetch requestId p target init s =
     postMessage (Posted BRIDGE_SCOPE BRIDGE_FETCH (FetchFields requestId target init))
       (s\<lparr>pendingFetches := (pendingFetches s)(requestId \<mapsto> p)\<rparr>)"

subsection \<open>\<open>BridgeWebSocket\<close> (lines 209-322)\<close>

datatype protocols_arg = NoProtocols | OneProtocol string | ProtocolList "string list"

fun protocolList :: "protocols_arg \<Rightarrow> string list" where
  "protocolList (ProtocolList ps) = ps"
| "protocolList (OneProtocol p) = (if p = [] then [] else [p])"
| "protocolList NoProtocols = []"

text \<open>The constructor; \<open>this\<close> is the reference of the new object, \<open>i\<close> the value of \<^verbatim>\<open>genId('ws')\<close>.\<close>

definition new_BridgeWebSocket ::
  "nat \<Rightarrow> string \<Rightarrow> string \<Rightarrow> protocols_arg \<Rightarrow> page_state \<Rightarrow> page_state" where
  "new_BridgeWebSocket this i u protocols s =
     postMessage (Posted BRIDGE_SCOPE WS_OPEN (OpenFields i u (protocolList protocols)))
       (s\<lparr>heap := (heap s)(this :=
              \<lparr>readyState = CONNECTING, url = u, protocol = [], binaryType = ''blob'',
               wsId = i, onopen = False, onmessage = False, onerror = False,
               onclose = False\<rparr>),
           socketMap := (socketMap s)(i \<mapsto> this)\<rparr>)"

definition send :: "nat \<Rightarrow> ws_data \<Rightarrow> page_state \<Rightarrow> js_error + page_state" where
  "send this d s =
     (if readyState (heap s this) \<noteq> OPEN then Inl (JsError ''WebSocket is not open'')
      else Inr (postMessage (Posted BRIDGE_SCOPE WS_SEND (SendFields (wsId (heap s this)) d)) s))"

definition close ::
  "nat \<Rightarrow> int option \<Rightarrow> string option \<Rightarrow> page_state \<Rightarrow> js_error + page_state" where
  "close this code reason s =
     (if readyState (heap s this) = CLOSED then Inr s
      else Inr (postMessage
                  (Posted BRIDGE_SCOPE WS_CLOSE (CloseFields (wsId (heap s this)) code reason))
                  (set_readyState this CLOSING s)))"

text \<open>
  \<open>dispatchSocketEvent\<close>: the handler stored in the property \<^verbatim>\<open>on<type>\<close> is called when it is
  a function, then the event goes to \<^verbatim>\<open>dispatchEvent\<close>.
\<close>

definition handler_set :: "BridgeWebSocket \<Rightarrow> string \<Rightarrow> bool" where
  "handler_set ws t =
     (if t = ''open'' then onopen ws
      else if t = ''message'' then onmessage ws
      else if t = ''error'' then onerror ws
      else if t = ''close'' then onclose ws
      else False)"

definition dispatchSocketEvent :: "nat \<Rightarrow> string \<Rightarrow> dom_event \<Rightarrow> page_state \<Rightarrow> page_state" where
  "dispatchSocketEvent this t ev s =
     s\<lparr>dispatched := dispatched s
          @ (if handler_set (heap s this) t then [HandlerCall this t ev] else [])
          @ [DispatchEvent this ev]\<rparr>"

text \<open>
  \<open>handleRemoteEvent\<close>: the \<^verbatim>\<open>switch\<close> on \<^verbatim>\<open>payload?.event\<close>. A \<^verbatim>\<open>Uint8Array\<close> is handed on as its
  buffer when \<^verbatim>\<open>binaryType\<close> is \<^verbatim>\<open>'arraybuffer'\<close>.
\<close>

definition message_data :: "BridgeWebSocket \<Rightarrow> ws_data \<Rightarrow> ws_data" where
  "message_data ws d =
     (case d of
        WsUint8Array bs \<Rightarrow> if binaryType ws = ''arraybuffer'' then WsArrayBuffer bs else d
      | _ \<Rightarrow> d)"

definition handleRemoteEvent ::
  "nat \<Rightarrow> bridge_payload option \<Rightarrow> page_state \<Rightarrow> js_error + page_state" where
  "handleRemoteEvent this payload s =
     (case payload of
        None \<Rightarrow> Inr s
      | Some p \<Rightarrow>
          if pl_event p = Some ''open'' then
            Inr (dispatchSocketEvent this ''open'' OpenEvent (set_readyState this OPEN s))
          else if pl_event p = Some ''message'' then
            Inr (dispatchSocketEvent this ''message''
                   (MessageEvent (message_data (heap s this) (pl_data p))) s)
          else if pl_event p = Some ''error'' then
            Inr (dispatchSocketEvent this ''error'' ErrorEvent s)
          else if pl_event p = Some ''close'' then
            (let s1 = set_readyState this CLOSED s;
                 s2 = s1\<lparr>socketMap := (socketMap s1)(wsId (heap s1 this) := None)\<rparr>
             in Inr (dispatchSocketEvent this ''close''
                       (CloseEvent (pl_code p) (pl_reason p) (pl_wasClean p = Some True)) s2))
          else Inr s)"

subsection \<open>\<open>handleBridgeMessage\<close> (lines 101-124)\<close>

text \<open>
  \<^verbatim>\<open>data.error || (!data.payload?.ok && data.payload?.error)\<close>: a string counts when it is
  present and not empty; \<^verbatim>\<open>ok\<close> counts as set only when it is \<^verbatim>\<open>true\<close>.
\<close>

definition nonempty :: "string option \<Rightarrow> string option" where
  "nonempty x = (case x of None \<Rightarrow> None | Some m \<Rightarrow> if m = [] then None else Some m)"

definition errorMsg :: "bridge_data \<Rightarrow> string option" where
  "errorMsg d =
     (case nonempty (bd_error d) of
        Some m \<Rightarrow> Some m
      | None \<Rightarrow>
          (case bd_payload d of
             None \<Rightarrow> None
           | Some p \<Rightarrow> if pl_ok p = Some True then None else nonempty (pl_error p)))"

definition fetch_settlement :: "bridge_data \<Rightarrow> settlement" where
  "fetch_settlement d =
     (case errorMsg d of
        Some m \<Rightarrow> Rejected (JsError m)
      | None \<Rightarrow> Resolved (bd_payload d))"

text \<open>\<^verbatim>\<open>Map.get\<close> and \<^verbatim>\<open>Map.delete\<close> with a key that may be \<^verbatim>\<open>undefined\<close> (never a key of the table).\<close>

definition map_get :: "(string \<rightharpoonup> 'v) \<Rightarrow> string option \<Rightarrow> 'v option" where
  "map_get m k = (case k of None \<Rightarrow> None | Some i \<Rightarrow> m i)"

definition map_delete :: "(string \<rightharpoonup> 'v) \<Rightarrow> string option \<Rightarrow> (string \<rightharpoonup> 'v)" where
  "map_delete m k = (case k of None \<Rightarrow> m | Some i \<Rightarrow> m(i := None))"

text \<open>
  The argument is \<^verbatim>\<open>event.data\<close>; \<open>None\<close> is a falsy value. The two \<^verbatim>\<open>if\<close>s of the source test
  \<^verbatim>\<open>data.type\<close> against different constants, so at most one of them runs.
\<close>

definition handleBridgeMessage :: "bridge_data option \<Rightarrow> page_state \<Rightarrow> js_error + page_state" where
  "handleBridgeMessage ev s =
     (case ev of
        None \<Rightarrow> Inr s
      | Some d \<Rightarrow>
          if bd_scope d \<noteq> BRIDGE_SCOPE then Inr s
          else if bd_type d = BRIDGE_FETCH @ '':response'' then
            (let pending = map_get (pendingFetches s) (bd_requestId d);
                 s1 = s\<lparr>pendingFetches := map_delete (pendingFetches s) (bd_requestId d)\<rparr>
             in case pending of
                  None \<Rightarrow> Inr s1
                | Some p \<Rightarrow> Inr (s1\<lparr>settled := settled s1 @ [(p, fetch_settlement d)]\<rparr>))
          else if bd_type d = ''pagespy:ws-event'' then
            (case map_get (socketMap s) (case bd_payload d of None \<Rightarrow> None | Some p \<Rightarrow> pl_wsId p) of
               None \<Rightarrow> Inr s
             | Some ws \<Rightarrow> handleRemoteEvent ws (bd_payload d) s)
          else Inr s)"

text \<open>A fetch-response message of this protocol, and the resolver call it leads to.\<close>

definition is_fetch_response :: "bridge_data \<Rightarrow> bool" where
  "is_fetch_response d =
     (bd_scope d = BRIDGE_SCOPE \<and> bd_type d = BRIDGE_FETCH @ '':response'')"

definition settles :: "(string \<rightharpoonup> nat) \<Rightarrow> bridge_data \<Rightarrow> (nat \<times> settlement) list" where
  "settles m d =
     (case map_get m (bd_requestId d) of None \<Rightarrow> [] | Some p \<Rightarrow> [(p, fetch_settlement d)])"

text \<open>A run of window messages, one handler call after the other; a throw ends the run.\<close>

fun deliver :: "bridge_data option list \<Rightarrow> page_state \<Rightarrow> js_error + page_state" where
  "deliver [] s = Inr s"
| "deliver (ev # evs) s =
     (case handleBridgeMessage ev s of Inl e \<Rightarrow> Inl e | Inr s' \<Rightarrow> deliver evs s')"

subsection \<open>Eligibility: \<open>shouldProxyUrl\<close> (lines 55-85 and 126-132)\<close>

text \<open>
  A value produced by \<^verbatim>\<open>JSON.parse\<close>. The source casts it to \<^verbatim>\<open>ExtensionConfig\<close> without
  looking at its properties, so the configuration is kept as such a value. Of a number only
  its being zero is read.
\<close>

datatype js_value =
    JNull
  | JBool bool
  | JNumber int
  | JString string
  | JArray "js_value list"
  | JObject "(string \<times> js_value) list"

record URL =
  url_host :: string
  url_pathname :: string

text \<open>
  What the page environment supplies: the item stored in \<^verbatim>\<open>sessionStorage\<close> under the
  configuration key, \<^verbatim>\<open>JSON.parse\<close> and the \<^verbatim>\<open>URL\<close> constructor (which can throw), the string
  conversion of a template literal, \<^verbatim>\<open>location.origin\<close>, and \<^verbatim>\<open>matchCurrentTab\<close>, the rule
  evaluator imported from \<^verbatim>\<open>../utils\<close>. The evaluator is called outside any \<^verbatim>\<open>try\<close>, so an
  error it throws leaves \<open>shouldProxyUrl\<close>.
\<close>

record platform =
  cached :: "string option"
  JSON_parse :: "string \<Rightarrow> js_error + js_value"
  new_URL :: "string \<Rightarrow> js_error + URL"
  ToString :: "js_value \<Rightarrow> string"
  matchCurrentTab :: "js_value \<Rightarrow> string \<Rightarrow> js_error + bool"
  location_origin :: string

text \<open>JavaScript truthiness; \<open>None\<close> is \<^verbatim>\<open>undefined\<close>.\<close>

fun truthy :: "js_value option \<Rightarrow> bool" where
  "truthy None = False"
| "truthy (Some JNull) = False"
| "truthy (Some (JBool b)) = b"
| "truthy (Some (JNumber n)) = (n \<noteq> 0)"
| "truthy (Some (JString s)) = (s \<noteq> [])"
| "truthy (Some (JArray xs)) = True"
| "truthy (Some (JObject kvs)) = True"


text \<open>\<^verbatim>\<open>typeof v === 'object'\<close>.\<close>

fun typeof_object :: "js_value \<Rightarrow> bool" where
  "typeof_object JNull = True"
| "typeof_object (JArray xs) = True"
| "typeof_object (JObject kvs) = True"
| "typeof_object _ = False"

text \<open>\<^verbatim>\<open>config?.name\<close> for one of the three property names read: only an object has them.\<close>

fun get_prop :: "js_value option \<Rightarrow> string \<Rightarrow> js_value option" where
  "get_prop (Some (JObject kvs)) name = map_of kvs name"
| "get_prop _ name = None"

definition template :: "platform \<Rightarrow> js_value option \<Rightarrow> string" where
  "template P v =
     (case v of None \<Rightarrow> ''undefined'' | Some (JString s) \<Rightarrow> s | Some w \<Rightarrow> ToString P w)"

definition readCachedConfig :: "platform \<Rightarrow> js_error + js_value option" where
  "readCachedConfig P =
     (case cached P of
        None \<Rightarrow> Inr None
      | Some cache \<Rightarrow>
          if cache = [] then Inr None
          else (case JSON_parse P cache of
                  Inl e \<Rightarrow> Inr None
                | Inr parsed \<Rightarrow>
                    if \<not> truthy (Some parsed) \<or> \<not> typeof_object parsed then Inr None
                    else Inr (Some parsed)))"

definition isEnabledForCurrentPage :: "platform \<Rightarrow> js_value option \<Rightarrow> js_error + bool" where
  "isEnabledForCurrentPage P config =
     (case get_prop config ''domainRules'' of
        None \<Rightarrow> Inr False
      | Some rules \<Rightarrow>
          if \<not> truthy (Some rules) then Inr False
          else matchCurrentTab P rules (location_origin P))"

definition endsWith_slash :: "string \<Rightarrow> bool" where
  "endsWith_slash s = (s \<noteq> [] \<and> last s = CHR ''/'')"

definition getTargetHost :: "platform \<Rightarrow> js_value option \<Rightarrow> js_error + string option" where
  "getTargetHost P config =
     (if \<not> truthy (get_prop config ''serviceAddress'') then Inr None
      else
        let scheme = (if truthy (get_prop config ''enableSSL'') then ''https://'' else ''http://'')
        in case new_URL P (scheme @ template P (get_prop config ''serviceAddress'')) of
             Inl e \<Rightarrow> Inr None
           | Inr u \<Rightarrow>
               (let address = (if endsWith_slash (url_pathname u)
                               then url_host u @ butlast (url_pathname u)
                               else url_host u @ url_pathname u);
                    clientOrigin = scheme @ address
                in case new_URL P clientOrigin of
                     Inl e \<Rightarrow> Inr None
                   | Inr u' \<Rightarrow> Inr (Some (url_host u'))))"

definition shouldProxyUrl :: "platform \<Rightarrow> URL \<Rightarrow> js_error + bool" where
  "shouldProxyUrl P targetUrl =
     (case readCachedConfig P of
        Inl e \<Rightarrow> Inl e
      | Inr config \<Rightarrow>
          (case isEnabledForCurrentPage P config of
             Inl e \<Rightarrow> Inl e
           | Inr enabled \<Rightarrow>
               if \<not> enabled then Inr False
               else (case getTargetHost P config of
                       Inl e \<Rightarrow> Inl e
                     | Inr None \<Rightarrow> Inr False
                     | Inr (Some h) \<Rightarrow>
                         if h = [] then Inr False else Inr (url_host targetUrl = h))))"




section \<open>Privileged relay (sw/index.ts)\<close>

definition BRIDGE_MESSAGE_TYPE :: string where "BRIDGE_MESSAGE_TYPE = ''pagespy:fetch''"

subsection \<open>Fetch: the \<^verbatim>\<open>onMessage\<close> listener and \<open>handleProxiedFetch\<close> (lines 63-71, 193-221)\<close>

text \<open>What awaiting a promise gives: a value, a thrown error, or nothing ever.\<close>

datatype 'a promise = Fulfilled 'a | RejectedWith js_error | Pending

record Response =
  res_status :: int
  res_statusText :: string
  res_headers :: SerializedHeaders
  res_text :: "string promise"

record RequestInit =
  ri_headers :: "SerializedHeaders option"
  ri_method :: "string option"
  ri_credentials :: "string option"
  ri_body :: BodyInit

text \<open>
  The network of the relay: the \<^verbatim>\<open>Headers\<close> constructor, which can throw, and \<^verbatim>\<open>fetch\<close>; and
  the \<^verbatim>\<open>TypeError\<close> the engine throws when \<^verbatim>\<open>undefined\<close> is destructured.
\<close>

record relay_platform =
  new_Headers :: "SerializedHeaders \<Rightarrow> js_error + SerializedHeaders"
  fetch :: "string \<Rightarrow> RequestInit \<Rightarrow> Response promise"
  destructure_undefined :: js_error

record fetch_request =
  fr_url :: string
  fr_init :: "SerializedInit option"

record fetch_result =
  fres_status :: int
  fres_statusText :: string
  fres_headers :: SerializedHeaders
  fres_body :: string

text \<open>
  \<^verbatim>\<open>reqInit\<close> starts as a copy of \<^verbatim>\<open>init\<close> without its body. An array of header pairs and a
  serialized body are objects, so \<^verbatim>\<open>init?.headers\<close> and \<^verbatim>\<open>init?.body\<close> hold whenever the
  property is there. The headers are rebuilt first (the constructor can throw); rebuilding
  the body does not throw.
\<close>

definition build_reqInit :: "relay_platform \<Rightarrow> SerializedInit option \<Rightarrow> js_error + RequestInit" where
  "build_reqInit P init =
     (case init of
        None \<Rightarrow>
          Inr \<lparr>ri_headers = None, ri_method = None, ri_credentials = None, ri_body = BodyAbsent\<rparr>
      | Some i \<Rightarrow>
          (let reqInit = \<lparr>ri_headers = si_headers i, ri_method = si_method i,
                          ri_credentials = si_credentials i, ri_body = BodyAbsent\<rparr>;
               body = (case si_body i of None \<Rightarrow> BodyAbsent | Some b \<Rightarrow> deserializeBody b)
           in case si_headers i of
                None \<Rightarrow> Inr (reqInit\<lparr>ri_body := body\<rparr>)
              | Some h \<Rightarrow>
                  (case new_Headers P h of
                     Inl e \<Rightarrow> Inl e
                   | Inr hs \<Rightarrow> Inr (reqInit\<lparr>ri_headers := Some hs, ri_body := body\<rparr>))))"

text \<open>
  The function is \<^verbatim>\<open>async\<close>: whatever is thrown inside, the destructuring of a missing
  payload included, rejects the promise it returns.
\<close>

definition handleProxiedFetch ::
  "relay_platform \<Rightarrow> fetch_request option \<Rightarrow> fetch_result promise" where
  "handleProxiedFetch P payload =
     (case payload of
        None \<Rightarrow> RejectedWith (destructure_undefined P)
      | Some request \<Rightarrow>
          (case build_reqInit P (fr_init request) of
             Inl e \<Rightarrow> RejectedWith e
           | Inr reqInit \<Rightarrow>
               (case fetch P (fr_url request) reqInit of
                  Pending \<Rightarrow> Pending
                | RejectedWith e \<Rightarrow> RejectedWith e
                | Fulfilled res \<Rightarrow>
                    (case res_text res of
                       Pending \<Rightarrow> Pending
                     | RejectedWith e \<Rightarrow> RejectedWith e
                     | Fulfilled body \<Rightarrow>
                         Fulfilled \<lparr>fres_status = res_status res,
                                    fres_statusText = res_statusText res,
                                    fres_headers = res_headers res,
                                    fres_body = body\<rparr>))))"

text \<open>The two shapes passed to \<^verbatim>\<open>sendResponse\<close>: \<^verbatim>\<open>{ ok: true, ...res }\<close> and \<^verbatim>\<open>{ ok: false, error }\<close>.\<close>

datatype fetch_reply =
    ReplyOk int string SerializedHeaders string
  | ReplyError string

record runtime_message =
  rm_type :: string
  rm_payload :: "fetch_request option"

text \<open>
  The listener gives the calls of \<^verbatim>\<open>sendResponse\<close> and its return value (\<^verbatim>\<open>true\<close> keeps the
  channel open; \<open>False\<close> stands for \<^verbatim>\<open>undefined\<close>).
\<close>

definition onMessage :: "relay_platform \<Rightarrow> runtime_message option \<Rightarrow> fetch_reply list \<times> bool" where
  "onMessage P msg =
     (case msg of
        None \<Rightarrow> ([], False)
      | Some m \<Rightarrow>
          if rm_type m \<noteq> BRIDGE_MESSAGE_TYPE then ([], False)
          else (case handleProxiedFetch P (rm_payload m) of
                  Fulfilled res \<Rightarrow>
                    ([ReplyOk (fres_status res) (fres_statusText res) (fres_headers res)
                        (fres_body res)], True)
                | RejectedWith err \<Rightarrow> ([ReplyError (message err)], True)
                | Pending \<Rightarrow> ([], True)))"

subsection \<open>WebSocket: the port listeners (lines 73-191)\<close>

text \<open>
  Real sockets are platform objects, named by reference. The platform says what the
  constructor returns, what \<^verbatim>\<open>readyState\<close> is, and whether \<^verbatim>\<open>send\<close> and \<^verbatim>\<open>close\<close> throw
  (\<open>Some\<close> of the error). Every call of \<^verbatim>\<open>send\<close> and \<^verbatim>\<open>close\<close> is listed in \<open>socket_calls\<close>.
\<close>

record socket_platform =
  new_WebSocket :: "string \<Rightarrow> string list option \<Rightarrow> js_error + nat"
  ws_readyState :: "nat \<Rightarrow> nat"
  ws_send :: "nat \<Rightarrow> ws_data \<Rightarrow> js_error option"
  ws_close :: "nat \<Rightarrow> int option \<Rightarrow> string option \<Rightarrow> js_error option"

datatype socket_call =
    SendCall nat ws_data
  | CloseCall nat "int option" "string option"

datatype port_event =
    EvOpen string
  | EvMessage string ws_data
  | EvError string string
  | EvClose string int string bool

text \<open>
  \<open>sockets\<close> is the \<^verbatim>\<open>Map\<close> of one port, in insertion order; \<open>port_posted\<close> lists the calls of
  \<^verbatim>\<open>port.postMessage\<close>, \<open>warned\<close> those of \<^verbatim>\<open>console.warn\<close>.
\<close>

record relay_state =
  sockets :: "(string \<times> nat) list"
  port_posted :: "port_event list"
  socket_calls :: "socket_call list"
  warned :: "(string \<times> js_error) list"

record port_message =
  msg_type :: string
  msg_wsId :: string
  msg_url :: string
  msg_protocols :: "string list option"
  msg_data :: ws_data
  msg_code :: "int option"
  msg_reason :: "string option"

definition port_postMessage :: "port_event \<Rightarrow> relay_state \<Rightarrow> relay_state" where
  "port_postMessage e s = s\<lparr>port_posted := port_posted s @ [e]\<rparr>"

text \<open>\<^verbatim>\<open>error?.message || fallback\<close>.\<close>

definition message_or :: "js_error \<Rightarrow> string \<Rightarrow> string" where
  "message_or e fallback = (if message e = [] then fallback else message e)"

definition cleanupSocket :: "socket_platform \<Rightarrow> string \<Rightarrow> relay_state \<Rightarrow> relay_state" where
  "cleanupSocket P i s =
     (case map_of (sockets s) i of
        None \<Rightarrow> s
      | Some ws \<Rightarrow>
          (let s1 = s\<lparr>socket_calls := socket_calls s @ [CloseCall ws None None]\<rparr>;
               s2 = (case ws_close P ws None None of
                       None \<Rightarrow> s1
                     | Some e \<Rightarrow>
                         s1\<lparr>warned := warned s1 @ [(''[PageSpy Extension] Close WS failed'', e)]\<rparr>)
           in s2\<lparr>sockets := AList.delete i (sockets s2)\<rparr>))"

text \<open>The callbacks wired to a real socket by the \<^verbatim>\<open>WS_OPEN\<close> case.\<close>

definition ws_onopen :: "string \<Rightarrow> relay_state \<Rightarrow> relay_state" where
  "ws_onopen i s = port_postMessage (EvOpen i) s"

definition ws_onmessage :: "string \<Rightarrow> ws_data \<Rightarrow> relay_state \<Rightarrow> relay_state" where
  "ws_onmessage i d s =
     port_postMessage
       (EvMessage i (case d of WsText t \<Rightarrow> WsText t
                             | WsArrayBuffer b \<Rightarrow> WsUint8Array b
                             | _ \<Rightarrow> WsNull)) s"

definition ws_onerror :: "string \<Rightarrow> string option \<Rightarrow> relay_state \<Rightarrow> relay_state" where
  "ws_onerror i m s =
     port_postMessage
       (EvError i (case nonempty m of None \<Rightarrow> ''WebSocket error'' | Some t \<Rightarrow> t)) s"

definition ws_onclose ::
  "socket_platform \<Rightarrow> string \<Rightarrow> int \<Rightarrow> string \<Rightarrow> bool \<Rightarrow> relay_state \<Rightarrow> relay_state" where
  "ws_onclose P i code reason wasClean s =
     cleanupSocket P i (port_postMessage (EvClose i code reason wasClean) s)"

text \<open>
  The \<^verbatim>\<open>switch\<close> of the port's message listener. In the \<^verbatim>\<open>WS_CLOSE\<close> case the \<^verbatim>\<open>finally\<close> block
  runs \<open>cleanupSocket\<close> after the \<^verbatim>\<open>try\<close> and after the \<^verbatim>\<open>catch\<close>.
\<close>

definition port_onMessage ::
  "socket_platform \<Rightarrow> port_message option \<Rightarrow> relay_state \<Rightarrow> relay_state" where
  "port_onMessage P m s =
     (case m of
        None \<Rightarrow> s
      | Some msg \<Rightarrow>
          if msg_type msg = [] then s
          else if msg_type msg = WS_OPEN then
            (case new_WebSocket P (msg_url msg) (msg_protocols msg) of
               Inr ws \<Rightarrow> s\<lparr>sockets := AList.update (msg_wsId msg) ws (sockets s)\<rparr>
             | Inl e \<Rightarrow>
                 port_postMessage
                   (EvError (msg_wsId msg) (message_or e ''Create WebSocket failed'')) s)
          else if msg_type msg = WS_SEND then
            (case map_of (sockets s) (msg_wsId msg) of
               None \<Rightarrow> port_postMessage (EvError (msg_wsId msg) ''WebSocket is not open'') s
             | Some ws \<Rightarrow>
                 if ws_readyState P ws \<noteq> OPEN
                 then port_postMessage (EvError (msg_wsId msg) ''WebSocket is not open'') s
                 else
                   (let s1 = s\<lparr>socket_calls := socket_calls s @ [SendCall ws (msg_data msg)]\<rparr>
                    in case ws_send P ws (msg_data msg) of
                         None \<Rightarrow> s1
                       | Some e \<Rightarrow>
                           port_postMessage
                             (EvError (msg_wsId msg) (message_or e ''Send message failed'')) s1))
          else if msg_type msg = WS_CLOSE then
            (let s1 =
               (case map_of (sockets s) (msg_wsId msg) of
                  None \<Rightarrow> s
                | Some ws \<Rightarrow>
                    (let s' = s\<lparr>socket_calls := socket_calls s
                                   @ [CloseCall ws (msg_code msg) (msg_reason msg)]\<rparr>
                     in case ws_close P ws (msg_code msg) (msg_reason msg) of
                          None \<Rightarrow> s'
                        | Some e \<Rightarrow>
                            port_postMessage
                              (EvError (msg_wsId msg) (message_or e ''Close WebSocket failed''))
                              s'))
             in cleanupSocket P (msg_wsId msg) s1)
          else s)"

text \<open>
  The disconnect listener: \<^verbatim>\<open>forEach\<close> visits the sockets of the table in order, each
  \<^verbatim>\<open>close\<close> inside its own \<^verbatim>\<open>try\<close>; then the table is cleared.
\<close>

fun close_each :: "socket_platform \<Rightarrow> nat list \<Rightarrow> relay_state \<Rightarrow> relay_state" where
  "close_each P [] s = s"
| "close_each P (ws # rest) s =
     (let s1 = s\<lparr>socket_calls := socket_calls s @ [CloseCall ws None None]\<rparr>;
          s2 = (case ws_close P ws None None of
                  None \<Rightarrow> s1
                | Some e \<Rightarrow>
                    s1\<lparr>warned := warned s1
                         @ [(''[PageSpy Extension] Close WS on disconnect failed'', e)]\<rparr>)
      in close_each P rest s2)"

definition port_onDisconnect :: "socket_platform \<Rightarrow> relay_state \<Rightarrow> relay_state" where
  "port_onDisconnect P s = (close_each P (map snd (sockets s)) s)\<lparr>sockets := []\<rparr>"

section \<open>Initial state and scenarios\<close>

text \<open>
  The page state when the module is loaded: both tables empty, nothing posted. A reference
  that no constructor has filled holds a blank object.
\<close>

definition blank_socket :: BridgeWebSocket where
  "blank_socket =
     \<lparr>readyState = CONNECTING, url = [], protocol = [], binaryType = ''blob'', wsId = [],
      onopen = False, onmessage = False, onerror = False, onclose = False\<rparr>"

definition page_init :: page_state where
  "page_init =
     \<lparr>pendingFetches = Map.empty, socketMap = Map.empty, heap = (\<lambda>r. blank_socket),
      posted = [], settled = [], dispatched = []\<rparr>"

definition relay_init :: relay_state where
  "relay_init = \<lparr>sockets = [], port_posted = [], socket_calls = [], warned = []\<rparr>"

text \<open>The object the relay posts for a socket event: \<^verbatim>\<open>{ wsId, event }\<close>.\<close>

definition event_payload :: "string \<Rightarrow> string \<Rightarrow> bridge_payload" where
  "event_payload i e =
     \<lparr>pl_ok = None, pl_status = 0, pl_statusText = [], pl_headers = [], pl_body = [],
      pl_error = None, pl_wsId = Some i, pl_event = Some e, pl_data = WsNull,
      pl_code = None, pl_reason = None, pl_wasClean = None\<rparr>"

text \<open>The reply \<^verbatim>\<open>{ ok: true, status, statusText, headers, body }\<close> as the page receives it.\<close>

definition ok_payload :: "int \<Rightarrow> string \<Rightarrow> bridge_payload" where
  "ok_payload st b =
     \<lparr>pl_ok = Some True, pl_status = st, pl_statusText = ''OK'', pl_headers = [], pl_body = b,
      pl_error = None, pl_wsId = None, pl_event = None, pl_data = WsNull,
      pl_code = None, pl_reason = None, pl_wasClean = None\<rparr>"

text \<open>The reply \<^verbatim>\<open>{ ok: false, error }\<close> as the page receives it.\<close>

definition error_payload :: "string \<Rightarrow> bridge_payload" where
  "error_payload m =
     \<lparr>pl_ok = Some False, pl_status = 0, pl_statusText = [], pl_headers = [], pl_body = [],
      pl_error = Some m, pl_wsId = None, pl_event = None, pl_data = WsNull,
      pl_code = None, pl_reason = None, pl_wasClean = None\<rparr>"

definition fetch_response :: "string \<Rightarrow> bridge_payload \<Rightarrow> bridge_data" where
  "fetch_response i p =
     \<lparr>bd_scope = BRIDGE_SCOPE, bd_type = BRIDGE_FETCH @ '':response'',
      bd_requestId = Some i, bd_payload = Some p, bd_error = None\<rparr>"

text \<open>A proxied socket just constructed, and the same socket after the remote \<^verbatim>\<open>open\<close> event.\<close>

definition socket_connecting :: page_state where
  "socket_connecting = new_BridgeWebSocket 0 ''ws_1'' ''wss://svc.local/ws'' NoProtocols page_init"

definition socket_open :: page_state where
  "socket_open = projr (handleRemoteEvent 0 (Some (event_payload ''ws_1'' ''open'')) socket_connecting)"

text \<open>Several proxied fetches issued one after the other.\<close>

type_synonym fetch_call = "string \<times> nat \<times> string \<times> SerializedInit"

fun issue_all :: "fetch_call list \<Rightarrow> page_state \<Rightarrow> page_state" where
  "issue_all [] s = s"
| "issue_all ((i, p, u, init) # rest) s = issue_all rest (createProxiedFetch i p u init s)"

definition no_init :: SerializedInit where
  "no_init = \<lparr>si_headers = None, si_method = None, si_credentials = None, si_body = None\<rparr>"










text \<open>A relay network on which every request is answered with status 200 and body \<^verbatim>\<open>ok\<close>.\<close>

definition ok_network :: relay_platform where
  "ok_network =
     \<lparr>new_Headers = (\<lambda>h. Inr h),
      fetch = (\<lambda>u r. Fulfilled \<lparr>res_status = 200, res_statusText = ''OK'', res_headers = [],
                                 res_text = Fulfilled ''ok''\<rparr>),
      destructure_undefined = JsError ''Cannot destructure property of undefined''\<rparr>"

definition down_network :: relay_platform where
  "down_network =
     \<lparr>new_Headers = (\<lambda>h. Inr h),
      fetch = (\<lambda>u r. RejectedWith (JsError ''Failed to fetch'')),
      destructure_undefined = JsError ''Cannot destructure property of undefined''\<rparr>"

text \<open>Real sockets whose \<^verbatim>\<open>close\<close> always throws.\<close>

definition throwing_sockets :: socket_platform where
  "throwing_sockets =
     \<lparr>new_WebSocket = (\<lambda>u ps. Inr 0),
      ws_readyState = (\<lambda>ws. OPEN),
      ws_send = (\<lambda>ws d. None),
      ws_close = (\<lambda>ws c r. Some (JsError ''InvalidAccessError''))\<rparr>"

definition ws_close_message :: "string \<Rightarrow> port_message" where
  "ws_close_message i =
     \<lparr>msg_type = WS_CLOSE, msg_wsId = i, msg_url = [], msg_protocols = None, msg_data = WsNull,
      msg_code = Some 1000, msg_reason = None\<rparr>"

section \<open>Codec: results\<close>

lemma entry_roundtrip:
  "wf_entry e \<Longrightarrow> entry_content (deserializeEntry (serializeEntry e)) = entry_content e"
  by (cases e rule: serializeEntry.cases) (simp_all add: new_File_def mime_or_empty_def)

lemma roundtrip_whole_buffer:
  assumes "wf_body b" and "whole_buffer b" and "\<not> is_stream b"
  shows "body_content (deserializeBody (serializeBody b)) = body_content b"
  using assms
  by (cases b)
     (auto simp: entry_roundtrip list_all_iff new_Blob_def mime_or_empty_def utf8_def)

text \<open>
  Serializing the rebuilt body gives the same wire value again, but for parameters that
  print as the empty string: their text variant is rebuilt as the empty string, which
  serializes as \<open>SerNone\<close>.
\<close>

lemma reserialize_stable:
  assumes "wf_body b" and "\<And>ps. b = BodyURLSearchParams ps \<Longrightarrow> URLSearchParams_toString ps \<noteq> []"
  shows "serializeBody (deserializeBody (serializeBody b)) = serializeBody b"
proof (cases b)
  case (BodyFormData es)
  have "\<And>e. wf_entry e \<Longrightarrow> serializeEntry (deserializeEntry (serializeEntry e)) = serializeEntry e"
  proof -
    fix e :: "string \<times> FormDataEntryValue"
    assume "wf_entry e"
    then show "serializeEntry (deserializeEntry (serializeEntry e)) = serializeEntry e"
      by (cases e rule: serializeEntry.cases) (simp_all add: new_File_def mime_or_empty_def)
  qed
  with assms BodyFormData show ?thesis
    by (auto simp: list_all_iff)
qed (use assms in \<open>auto simp: new_Blob_def mime_or_empty_def\<close>)

text \<open>
  C1. The claim: for every body the codec accepts, typed-array views among them,
  deserializing the serialized body gives back byte-identical content. It holds for every
  body but a view that does not cover its whole buffer (\<open>roundtrip_whole_buffer\<close>). For the
  view of length 3 at offset 2 of the eight bytes 1..8, whose content is 3, 4, 5, the codec
  sends and rebuilds all eight bytes.
\<close>

theorem view_subrange_not_preserved:
  "wf_body (BodyView [1, 2, 3, 4, 5, 6, 7, 8] 2 3)
   \<and> body_content (BodyView [1, 2, 3, 4, 5, 6, 7, 8] 2 3) = WireBytes [3, 4, 5] None
   \<and> body_content (deserializeBody (serializeBody (BodyView [1, 2, 3, 4, 5, 6, 7, 8] 2 3)))
       = WireBytes [1, 2, 3, 4, 5, 6, 7, 8] None"
  by simp

section \<open>Page-side sockets: results\<close>

lemmas page_defs =
  socket_open_def socket_connecting_def handleRemoteEvent_def event_payload_def
  new_BridgeWebSocket_def dispatchSocketEvent_def set_readyState_def postMessage_def
  page_init_def handler_set_def blank_socket_def

text \<open>
  C5. \<open>send\<close> throws exactly when the ready-state of the socket is not open; when it is open,
  \<open>send\<close> does not throw and posts one ws-send message that carries the data unchanged,
  leaving everything else as it was.
\<close>

theorem send_throws_iff_not_open:
  "(isl (send this d s) \<longleftrightarrow> readyState (heap s this) \<noteq> OPEN)
   \<and> (readyState (heap s this) \<noteq> OPEN \<longrightarrow>
        send this d s = Inl (JsError ''WebSocket is not open''))
   \<and> (readyState (heap s this) = OPEN \<longrightarrow>
        send this d s =
          Inr (s\<lparr>posted := posted s
                 @ [Posted BRIDGE_SCOPE WS_SEND (SendFields (wsId (heap s this)) d)]\<rparr>))"
  by (simp add: send_def postMessage_def)

theorem send_throws_iff_not_open_witness:
  "readyState (heap socket_connecting 0) \<noteq> OPEN
   \<and> send 0 (WsText ''ping'') socket_connecting = Inl (JsError ''WebSocket is not open'')
   \<and> readyState (heap socket_open 0) = OPEN
   \<and> send 0 (WsText ''ping'') socket_open =
       Inr (socket_open\<lparr>posted := posted socket_open
              @ [Posted BRIDGE_SCOPE WS_SEND (SendFields ''ws_1'' (WsText ''ping''))]\<rparr>)"
proof -
  have c: "readyState (heap socket_connecting 0) \<noteq> OPEN"
    by (simp add: page_defs CONNECTING_def OPEN_def)
  have o: "readyState (heap socket_open 0) = OPEN"
    by (simp add: page_defs)
  have i: "wsId (heap socket_open 0) = ''ws_1''"
    by (simp add: page_defs)
  show ?thesis
    using send_throws_iff_not_open [of 0 "WsText ''ping''" socket_connecting]
      send_throws_iff_not_open [of 0 "WsText ''ping''" socket_open] c o i
    by simp
qed

text \<open>
  C6. The claim: \<open>close\<close> never throws, is a no-op when the ready-state is closed and when it
  is called a second time, and otherwise sets the ready-state to closing and posts a ws-close
  message. The second call is not a no-op while the socket is still closing: on an open
  socket the second \<open>close\<close> posts a second ws-close message.
\<close>

theorem close_twice_counterexample:
  "close 0 None None (projr (close 0 None None socket_open))
     \<noteq> Inr (projr (close 0 None None socket_open))
   \<and> posted (projr (close 0 None None (projr (close 0 None None socket_open))))
       = posted (projr (close 0 None None socket_open))
           @ [Posted BRIDGE_SCOPE WS_CLOSE (CloseFields ''ws_1'' None None)]"
proof -
  have p: "posted (projr (close 0 None None (projr (close 0 None None socket_open))))
       = posted (projr (close 0 None None socket_open))
           @ [Posted BRIDGE_SCOPE WS_CLOSE (CloseFields ''ws_1'' None None)]"
    by (simp add: close_def page_defs OPEN_def CLOSED_def CLOSING_def)
  have "close 0 None None (projr (close 0 None None socket_open))
     \<noteq> Inr (projr (close 0 None None socket_open))"
  proof
    assume "close 0 None None (projr (close 0 None None socket_open))
       = Inr (projr (close 0 None None socket_open))"
    then have "posted (projr (close 0 None None (projr (close 0 None None socket_open))))
       = posted (projr (close 0 None None socket_open))"
      by simp
    with p show False by simp
  qed
  with p show ?thesis by simp
qed

text \<open>
  C6, as amended. \<open>close\<close> never throws. It is a no-op when the ready-state is closed, so a
  \<open>close\<close> after the remote close event is a no-op. In every other ready-state, closing
  included, it sets the ready-state to closing and posts one ws-close message; a second
  \<open>close\<close> leaves the ready-state at closing. \<open>close\<close> itself never sets the ready-state to
  closed: that is done by the remote close event alone.
\<close>

theorem close_sets_closing_only:
  "(\<exists>s'. close this c r s = Inr s')
   \<and> (readyState (heap s this) = CLOSED \<longrightarrow> close this c r s = Inr s)
   \<and> (readyState (heap s this) \<noteq> CLOSED \<longrightarrow>
        (\<exists>s'. close this c r s = Inr s'
           \<and> readyState (heap s' this) = CLOSING
           \<and> posted s' = posted s
                @ [Posted BRIDGE_SCOPE WS_CLOSE (CloseFields (wsId (heap s this)) c r)]
           \<and> socketMap s' = socketMap s
           \<and> (\<exists>s''. close this c' r' s' = Inr s'' \<and> readyState (heap s'' this) = CLOSING)))
   \<and> (\<forall>s'. close this c r s = Inr s' \<longrightarrow>
         (readyState (heap s' this) = CLOSED \<longleftrightarrow> readyState (heap s this) = CLOSED))
   \<and> (\<forall>p s1. pl_event p = Some ''close'' \<longrightarrow> handleRemoteEvent this (Some p) s = Inr s1 \<longrightarrow>
         readyState (heap s1 this) = CLOSED \<and> close this c r s1 = Inr s1)"
  by (auto simp: close_def postMessage_def set_readyState_def CLOSING_def CLOSED_def
      handleRemoteEvent_def dispatchSocketEvent_def Let_def)

theorem close_sets_closing_only_witness:
  "readyState (heap socket_open 0) \<noteq> CLOSED
   \<and> (\<exists>s'. close 0 None None socket_open = Inr s'
         \<and> readyState (heap s' 0) = CLOSING
         \<and> posted s' = posted socket_open
              @ [Posted BRIDGE_SCOPE WS_CLOSE (CloseFields ''ws_1'' None None)]
         \<and> (\<exists>s''. close 0 None None s' = Inr s'' \<and> readyState (heap s'' 0) = CLOSING))"
proof -
  have o: "readyState (heap socket_open 0) \<noteq> CLOSED"
    by (simp add: page_defs OPEN_def CLOSED_def)
  have i: "wsId (heap socket_open 0) = ''ws_1''"
    by (simp add: page_defs)
  from o close_sets_closing_only [of 0 None None socket_open None None] i
  show ?thesis by auto
qed

text \<open>
  C10. Handling a remote event never throws. An event other than \<^verbatim>\<open>open\<close> and \<^verbatim>\<open>close\<close>
  (\<^verbatim>\<open>error\<close>, \<^verbatim>\<open>message\<close>, an unknown kind, or none) leaves every socket object and the socket
  table as they were. Only \<^verbatim>\<open>open\<close> makes the ready-state open, and it leaves the table
  alone; only \<^verbatim>\<open>close\<close> makes the ready-state closed and removes the id of the socket from
  the table. No other socket and no other part of the page state changes.
\<close>

theorem handleRemoteEvent_frame:
  assumes "ev = (case payload of None \<Rightarrow> None | Some p \<Rightarrow> pl_event p)"
  shows "\<exists>s'. handleRemoteEvent this payload s = Inr s'
     \<and> (ev = Some ''open'' \<longrightarrow>
          readyState (heap s' this) = OPEN \<and> socketMap s' = socketMap s)
     \<and> (ev = Some ''close'' \<longrightarrow>
          readyState (heap s' this) = CLOSED
          \<and> socketMap s' = (socketMap s)(wsId (heap s this) := None))
     \<and> (ev \<noteq> Some ''open'' \<and> ev \<noteq> Some ''close'' \<longrightarrow>
          heap s' = heap s \<and> socketMap s' = socketMap s)
     \<and> (readyState (heap s this) \<noteq> OPEN \<and> readyState (heap s' this) = OPEN \<longrightarrow>
          ev = Some ''open'')
     \<and> (readyState (heap s this) \<noteq> CLOSED \<and> readyState (heap s' this) = CLOSED \<longrightarrow>
          ev = Some ''close'')
     \<and> (socketMap s' \<noteq> socketMap s \<longrightarrow> ev = Some ''close'')
     \<and> (\<forall>other. other \<noteq> this \<longrightarrow> heap s' other = heap s other)
     \<and> pendingFetches s' = pendingFetches s \<and> posted s' = posted s \<and> settled s' = settled s"
  using assms
  by (cases payload)
     (auto simp: handleRemoteEvent_def dispatchSocketEvent_def set_readyState_def Let_def
        OPEN_def CLOSED_def)

theorem handleRemoteEvent_frame_witness:
  "(\<exists>s'. handleRemoteEvent 0 (Some (event_payload ''ws_1'' ''error'')) socket_open = Inr s'
      \<and> readyState (heap s' 0) = OPEN \<and> socketMap s' ''ws_1'' = Some 0)
   \<and> (\<exists>s'. handleRemoteEvent 0 (Some (event_payload ''ws_1'' ''close'')) socket_open = Inr s'
      \<and> readyState (heap s' 0) = CLOSED \<and> socketMap s' ''ws_1'' = None)"
proof -
  have e: "Some ''error'' =
      (case Some (event_payload ''ws_1'' ''error'') of None \<Rightarrow> None | Some p \<Rightarrow> pl_event p)"
    and c: "Some ''close'' =
      (case Some (event_payload ''ws_1'' ''close'') of None \<Rightarrow> None | Some p \<Rightarrow> pl_event p)"
    by (simp_all add: event_payload_def)
  have h: "heap socket_open 0 =
      (blank_socket\<lparr>readyState := OPEN, url := ''wss://svc.local/ws'', wsId := ''ws_1''\<rparr>)"
    and m: "socketMap socket_open ''ws_1'' = Some 0"
    by (simp_all add: page_defs)
  from handleRemoteEvent_frame [OF e, of 0 socket_open] h m
  have 1: "\<exists>s'. handleRemoteEvent 0 (Some (event_payload ''ws_1'' ''error'')) socket_open = Inr s'
      \<and> readyState (heap s' 0) = OPEN \<and> socketMap s' ''ws_1'' = Some 0"
    by auto
  from handleRemoteEvent_frame [OF c, of 0 socket_open] h m
  have 2: "\<exists>s'. handleRemoteEvent 0 (Some (event_payload ''ws_1'' ''close'')) socket_open = Inr s'
      \<and> readyState (heap s' 0) = CLOSED \<and> socketMap s' ''ws_1'' = None"
    by auto
  from 1 2 show ?thesis by blast
qed

section \<open>Fetch correlation: results\<close>

lemma handle_fetch_response:
  assumes "is_fetch_response d"
  shows "handleBridgeMessage (Some d) s =
     Inr (s\<lparr>pendingFetches := map_delete (pendingFetches s) (bd_requestId d),
            settled := settled s @ settles (pendingFetches s) d\<rparr>)"
  using assms
  by (simp add: handleBridgeMessage_def is_fetch_response_def settles_def Let_def
      split: option.splits)

lemma map_delete_absent: "map_get m k = None \<Longrightarrow> map_delete m k = m"
  by (cases k) (auto simp: map_get_def map_delete_def)

lemma map_get_delete_same: "map_get (map_delete m k) k = None"
  by (cases k) (simp_all add: map_get_def map_delete_def)

lemma map_get_delete_other: "k' \<noteq> k \<Longrightarrow> map_get (map_delete m k) k' = map_get m k'"
  by (cases k; cases k') (simp_all add: map_get_def map_delete_def)

text \<open>
  A run of fetch responses with pairwise different ids: each response meets the table as
  it was before the run, since the responses before it removed other ids only.
\<close>

lemma deliver_responses:
  assumes "\<forall>d\<in>set ds. is_fetch_response d" and "distinct (map bd_requestId ds)"
  shows "\<exists>s'. deliver (map Some ds) s = Inr s'
      \<and> settled s' = settled s @ concat (map (settles (pendingFetches s)) ds)
      \<and> (\<forall>j. pendingFetches s' j =
               (if Some j \<in> bd_requestId ` set ds then None else pendingFetches s j))"
  using assms
proof (induction ds arbitrary: s)
  case Nil
  then show ?case by simp
next
  case (Cons d ds)
  let ?s1 = "s\<lparr>pendingFetches := map_delete (pendingFetches s) (bd_requestId d),
            settled := settled s @ settles (pendingFetches s) d\<rparr>"
  have step: "handleBridgeMessage (Some d) s = Inr ?s1"
    using Cons.prems(1) by (simp add: handle_fetch_response)
  from Cons.prems have fr: "\<forall>d\<in>set ds. is_fetch_response d"
    and di: "distinct (map bd_requestId ds)"
    by auto
  from Cons.prems(2) have "bd_requestId d \<notin> bd_requestId ` set ds"
    by simp
  then have ne: "\<forall>d'\<in>set ds. bd_requestId d' \<noteq> bd_requestId d"
    by (metis imageI)
  from Cons.IH [OF fr di, of ?s1] obtain s' where
    run: "deliver (map Some ds) ?s1 = Inr s'"
    and se: "settled s' = settled ?s1 @ concat (map (settles (pendingFetches ?s1)) ds)"
    and pe: "\<forall>j. pendingFetches s' j =
               (if Some j \<in> bd_requestId ` set ds then None else pendingFetches ?s1 j)"
    by blast
  have "map (settles (pendingFetches ?s1)) ds = map (settles (pendingFetches s)) ds"
    using ne by (intro map_cong refl) (simp add: settles_def map_get_delete_other)
  then have same: "concat (map (settles (pendingFetches ?s1)) ds)
      = concat (map (settles (pendingFetches s)) ds)"
    by (rule arg_cong)
  have a: "deliver (map Some (d # ds)) s = Inr s'"
    using step run by simp
  have b: "settled s' = settled s @ concat (map (settles (pendingFetches s)) (d # ds))"
    using se same by simp
  have c: "\<forall>j. pendingFetches s' j =
               (if Some j \<in> bd_requestId ` set (d # ds) then None else pendingFetches s j)"
  proof
    fix j
    show "pendingFetches s' j =
               (if Some j \<in> bd_requestId ` set (d # ds) then None else pendingFetches s j)"
      using pe [rule_format, of j]
      by (cases "bd_requestId d") (auto simp: map_delete_def)
  qed
  show ?case
    by (rule exI [of _ s']) (intro conjI a b c)
qed

lemma issue_all_pending:
  assumes "distinct (map fst reqs)"
  shows "pendingFetches (issue_all reqs s) j =
           (case map_of reqs j of Some (p, u, init) \<Rightarrow> Some p | None \<Rightarrow> pendingFetches s j)"
  using assms
proof (induction reqs arbitrary: s)
  case Nil
  then show ?case by simp
next
  case (Cons r reqs)
  obtain i p u init where r: "r = (i, p, u, init)" by (cases r) auto
  from Cons.prems r have d: "distinct (map fst reqs)" and n: "map_of reqs i = None"
    by (auto simp: map_of_eq_None_iff)
  show ?case
    using Cons.IH [OF d, of "createProxiedFetch i p u init s"] n
    by (auto simp: r createProxiedFetch_def postMessage_def split: option.splits)
qed

lemma issue_all_settled: "settled (issue_all reqs s) = settled s"
  by (induction reqs arbitrary: s) (auto simp: createProxiedFetch_def postMessage_def)

text \<open>
  Every promise of the issued fetches is settled once, by the response with its id; the
  value is the one \<open>handleBridgeMessage\<close> computes from that response.
\<close>

lemma correlation_by_id:
  assumes ids: "distinct (map fst reqs)"
    and promises: "distinct (map (fst \<circ> snd) reqs)"
    and order: "mset (map bd_requestId ds) = mset (map (Some \<circ> fst) reqs)"
    and resp: "\<forall>d\<in>set ds. is_fetch_response d"
    and mine: "(i, p, u, init) \<in> set reqs"
    and reply: "d \<in> set ds" "bd_requestId d = Some i"
  shows "\<exists>s' before after.
           deliver (map Some ds) (issue_all reqs s) = Inr s'
         \<and> settled s' = settled s @ before @ [(p, fetch_settlement d)] @ after
         \<and> p \<notin> fst ` set (before @ after)
         \<and> pendingFetches s' i = None"
proof -
  let ?s0 = "issue_all reqs s"
  have dist: "distinct (map bd_requestId ds)"
  proof -
    have "distinct (map (Some \<circ> fst) reqs)"
      using ids by (simp add: distinct_map comp_inj_on_iff inj_on_def)
    with order show ?thesis
      by (metis mset_eq_imp_distinct_iff)
  qed
  from deliver_responses [OF resp dist, of ?s0] obtain s' where
    run: "deliver (map Some ds) ?s0 = Inr s'"
    and se: "settled s' = settled ?s0 @ concat (map (settles (pendingFetches ?s0)) ds)"
    and pe: "\<forall>j. pendingFetches s' j =
               (if Some j \<in> bd_requestId ` set ds then None else pendingFetches ?s0 j)"
    by blast
  have known: "\<exists>j q v w. bd_requestId d' = Some j \<and> (j, q, v, w) \<in> set reqs"
    if "d' \<in> set ds" for d'
  proof -
    from that have "bd_requestId d' \<in> set (map bd_requestId ds)" by simp
    then have "bd_requestId d' \<in> set (map (Some \<circ> fst) reqs)"
      using order by (metis mset_eq_setD)
    then obtain r where r: "r \<in> set reqs" "bd_requestId d' = Some (fst r)"
      by auto
    obtain j q v w where "r = (j, q, v, w)"
      by (cases r) auto
    with r show ?thesis
      by auto
  qed
  have look: "pendingFetches ?s0 j = Some q" if "(j, q, v, w) \<in> set reqs" for j q v w
    using that ids by (simp add: issue_all_pending)
  have one: "settles (pendingFetches ?s0) d' = [(q, fetch_settlement d')]"
    if "bd_requestId d' = Some j" "(j, q, v, w) \<in> set reqs" for d' j q v w
    using that look [OF that(2)] by (simp add: settles_def map_get_def)
  from reply(1) obtain ds1 ds2 where split: "ds = ds1 @ d # ds2"
    by (auto dest: split_list)
  let ?f = "\<lambda>xs. concat (map (settles (pendingFetches ?s0)) xs)"
  have other: "p \<notin> fst ` set (?f xs)" if sub: "set xs \<subseteq> set ds" and nd: "d \<notin> set xs" for xs
  proof
    assume "p \<in> fst ` set (?f xs)"
    then obtain d' where d': "d' \<in> set xs"
      and pin: "p \<in> fst ` set (settles (pendingFetches ?s0) d')"
      by auto
    from d' sub have "d' \<in> set ds" by auto
    from known [OF this] obtain j q v w
      where j: "bd_requestId d' = Some j" "(j, q, v, w) \<in> set reqs"
      by blast
    from pin one [OF j] have "q = p" by simp
    with j(2) mine promises have "j = i"
      by (metis (no_types, lifting) comp_apply distinct_map fst_conv inj_onD snd_conv)
    with j(1) reply(2) have "bd_requestId d' = bd_requestId d" by simp
    moreover from \<open>d' \<in> set ds\<close> reply(1) dist
    have "bd_requestId d' = bd_requestId d \<longrightarrow> d' = d"
      by (meson distinct_map inj_onD)
    ultimately have "d' = d" by simp
    with d' nd show False by simp
  qed
  from dist split have "d \<notin> set ds1" "d \<notin> set ds2"
    by (auto simp: distinct_map)
  then have n1: "d \<notin> set ds1" and n2: "d \<notin> set ds2"
    by simp_all
  have "set ds1 \<subseteq> set ds" and "set ds2 \<subseteq> set ds"
    using split by auto
  then have o1: "p \<notin> fst ` set (?f ds1)" and o2: "p \<notin> fst ` set (?f ds2)"
    using n1 n2 by (simp_all only: other not_False_eq_True)
  have a: "settled s' = settled s @ ?f ds1 @ [(p, fetch_settlement d)] @ ?f ds2"
    using se split one [OF reply(2) mine] by (simp add: issue_all_settled)
  have b: "p \<notin> fst ` set (?f ds1 @ ?f ds2)"
    using o1 o2 by auto
  have c: "pendingFetches s' i = None"
    using pe [rule_format, of i] reply by force
  show ?thesis
    apply (rule exI [of _ s'], rule exI [of _ "?f ds1"], rule exI [of _ "?f ds2"])
    apply (intro conjI run a b c)
    done
qed

text \<open>
  The value a response settles its promise with, read off the message: a non-empty
  \<^verbatim>\<open>data.error\<close> rejects with that message; otherwise a payload that is not marked
  \<^verbatim>\<open>ok: true\<close> and has a non-empty \<^verbatim>\<open>error\<close> rejects with that one; otherwise the promise is
  resolved with the payload itself.
\<close>

lemma fetch_settlement_explicit:
  "fetch_settlement d =
     (case bd_error d of
        Some (c # cs) \<Rightarrow> Rejected (JsError (c # cs))
      | _ \<Rightarrow>
          (case bd_payload d of
             None \<Rightarrow> Resolved None
           | Some pl \<Rightarrow>
               if pl_ok pl = Some True then Resolved (Some pl)
               else (case pl_error pl of
                       Some (c # cs) \<Rightarrow> Rejected (JsError (c # cs))
                     | _ \<Rightarrow> Resolved (Some pl))))"
  by (simp add: fetch_settlement_def errorMsg_def nonempty_def split: option.splits list.splits)

text \<open>
  C2. Let N proxied fetches be outstanding, with pairwise different ids and each with its
  own promise, and let the fetch responses for exactly these ids arrive in any order. Then
  the run of handler calls does not throw, and the promise of every caller is settled
  exactly once, by the response that carries its id and with what that response holds:
  it is rejected with the error message of that response if there is one, and resolved
  with the payload of that response otherwise. No other response of the run reaches this
  promise, and its id has left the table.
\<close>

theorem fetch_correlation:
  assumes ids: "distinct (map fst reqs)"
    and promises: "distinct (map (fst \<circ> snd) reqs)"
    and order: "mset (map bd_requestId ds) = mset (map (Some \<circ> fst) reqs)"
    and resp: "\<forall>d\<in>set ds. is_fetch_response d"
    and mine: "(i, p, u, init) \<in> set reqs"
    and reply: "d \<in> set ds" "bd_requestId d = Some i"
  shows "\<exists>s' before after.
           deliver (map Some ds) (issue_all reqs s) = Inr s'
         \<and> settled s' = settled s @ before
             @ [(p, case bd_error d of
                      Some (c # cs) \<Rightarrow> Rejected (JsError (c # cs))
                    | _ \<Rightarrow>
                        (case bd_payload d of
                           None \<Rightarrow> Resolved None
                         | Some pl \<Rightarrow>
                             if pl_ok pl = Some True then Resolved (Some pl)
                             else (case pl_error pl of
                                     Some (c # cs) \<Rightarrow> Rejected (JsError (c # cs))
                                   | _ \<Rightarrow> Resolved (Some pl))))]
             @ after
         \<and> p \<notin> fst ` set (before @ after)
         \<and> pendingFetches s' i = None"
  using correlation_by_id [OF assms, of s]
  unfolding fetch_settlement_explicit .

text \<open>
  Two fetches, answered in reverse order, the second with an error: the first caller is
  resolved with the first payload, the second caller is rejected with the error.
\<close>

theorem fetch_correlation_witness:
  "(\<exists>s' before after.
      deliver (map Some [fetch_response ''fetch_2'' (error_payload ''Failed to fetch''),
                         fetch_response ''fetch_1'' (ok_payload 200 ''one'')])
        (issue_all [(''fetch_1'', 1, ''https://svc.local/a'', no_init),
                    (''fetch_2'', 2, ''https://svc.local/b'', no_init)] page_init) = Inr s'
    \<and> settled s' = settled page_init @ before
         @ [(1, Resolved (Some (ok_payload 200 ''one'')))] @ after
    \<and> 1 \<notin> fst ` set (before @ after)
    \<and> pendingFetches s' ''fetch_1'' = None)
   \<and> (\<exists>s' before after.
      deliver (map Some [fetch_response ''fetch_2'' (error_payload ''Failed to fetch''),
                         fetch_response ''fetch_1'' (ok_payload 200 ''one'')])
        (issue_all [(''fetch_1'', 1, ''https://svc.local/a'', no_init),
                    (''fetch_2'', 2, ''https://svc.local/b'', no_init)] page_init) = Inr s'
    \<and> settled s' = settled page_init @ before
         @ [(2, Rejected (JsError ''Failed to fetch''))] @ after
    \<and> 2 \<notin> fst ` set (before @ after)
    \<and> pendingFetches s' ''fetch_2'' = None)"
proof -
  let ?reqs = "[(''fetch_1'', 1::nat, ''https://svc.local/a'', no_init),
                (''fetch_2'', 2, ''https://svc.local/b'', no_init)]"
  let ?d1 = "fetch_response ''fetch_1'' (ok_payload 200 ''one'')"
  let ?d2 = "fetch_response ''fetch_2'' (error_payload ''Failed to fetch'')"
  have 1: "distinct (map fst ?reqs)" by simp
  have 2: "distinct (map (fst \<circ> snd) ?reqs)" by simp
  have 3: "mset (map bd_requestId [?d2, ?d1]) = mset (map (Some \<circ> fst) ?reqs)"
    by (simp add: fetch_response_def)
  have 4: "\<forall>d\<in>set [?d2, ?d1]. is_fetch_response d"
    by (simp add: is_fetch_response_def fetch_response_def)
  have m1: "(''fetch_1'', 1, ''https://svc.local/a'', no_init) \<in> set ?reqs" by simp
  have m2: "(''fetch_2'', 2, ''https://svc.local/b'', no_init) \<in> set ?reqs" by simp
  have r1: "?d1 \<in> set [?d2, ?d1]" and r2: "?d2 \<in> set [?d2, ?d1]" by simp_all
  have i1: "bd_requestId ?d1 = Some ''fetch_1''" and i2: "bd_requestId ?d2 = Some ''fetch_2''"
    by (simp_all add: fetch_response_def)
  have v1: "(case bd_error ?d1 of
                      Some (c # cs) \<Rightarrow> Rejected (JsError (c # cs))
                    | _ \<Rightarrow>
                        (case bd_payload ?d1 of
                           None \<Rightarrow> Resolved None
                         | Some pl \<Rightarrow>
                             if pl_ok pl = Some True then Resolved (Some pl)
                             else (case pl_error pl of
                                     Some (c # cs) \<Rightarrow> Rejected (JsError (c # cs))
                                   | _ \<Rightarrow> Resolved (Some pl))))
      = Resolved (Some (ok_payload 200 ''one''))"
    by (simp add: fetch_response_def ok_payload_def)
  have v2: "(case bd_error ?d2 of
                      Some (c # cs) \<Rightarrow> Rejected (JsError (c # cs))
                    | _ \<Rightarrow>
                        (case bd_payload ?d2 of
                           None \<Rightarrow> Resolved None
                         | Some pl \<Rightarrow>
                             if pl_ok pl = Some True then Resolved (Some pl)
                             else (case pl_error pl of
                                     Some (c # cs) \<Rightarrow> Rejected (JsError (c # cs))
                                   | _ \<Rightarrow> Resolved (Some pl))))
      = Rejected (JsError ''Failed to fetch'')"
    by (simp add: fetch_response_def error_payload_def)
  note a = fetch_correlation [OF 1 2 3 4 m1 r1 i1, of page_init, unfolded v1]
  note b = fetch_correlation [OF 1 2 3 4 m2 r2 i2, of page_init, unfolded v2]
  from a b show ?thesis by (rule conjI)
qed

text \<open>No handler call adds an entry to the pending table.\<close>

lemma handle_keeps_absent:
  assumes "handleBridgeMessage ev s = Inr s'" and "pendingFetches s j = None"
  shows "pendingFetches s' j = None"
  using assms
  by (auto simp: handleBridgeMessage_def handleRemoteEvent_def dispatchSocketEvent_def
      set_readyState_def map_delete_def Let_def split: option.splits if_splits)

lemma deliver_keeps_absent:
  assumes "deliver evs s = Inr s'" and "pendingFetches s j = None"
  shows "pendingFetches s' j = None"
  using assms
proof (induction evs arbitrary: s)
  case Nil
  then show ?case by simp
next
  case (Cons ev evs)
  from Cons.prems(1) obtain s1 where 1: "handleBridgeMessage ev s = Inr s1"
    and 2: "deliver evs s1 = Inr s'"
    by (auto split: sum.splits)
  from handle_keeps_absent [OF 1 Cons.prems(2)] have "pendingFetches s1 j = None" .
  with Cons.IH [OF 2] show ?case .
qed

lemma absent_response_no_effect:
  assumes "is_fetch_response d" and "map_get (pendingFetches s) (bd_requestId d) = None"
  shows "handleBridgeMessage (Some d) s = Inr s"
  using assms by (simp add: handle_fetch_response map_delete_absent settles_def)

text \<open>
  C3. Handling a fetch response does not throw and removes its id from the pending table;
  it calls at most one resolver. A further fetch response with the same id, at once or
  after any run of other window messages, leaves the state as it is. A response whose id
  is not in the table changes nothing at all, and no response touches the entry of another
  id.
\<close>

theorem duplicate_response_no_effect:
  assumes "is_fetch_response d" and "is_fetch_response d'"
    and "bd_requestId d' = bd_requestId d"
  shows "\<exists>s1. handleBridgeMessage (Some d) s = Inr s1
     \<and> map_get (pendingFetches s1) (bd_requestId d) = None
     \<and> length (settled s1) \<le> length (settled s) + 1
     \<and> handleBridgeMessage (Some d') s1 = Inr s1
     \<and> (\<forall>evs s2. deliver evs s1 = Inr s2 \<longrightarrow> handleBridgeMessage (Some d') s2 = Inr s2)
     \<and> (\<forall>j. Some j \<noteq> bd_requestId d \<longrightarrow> pendingFetches s1 j = pendingFetches s j)
     \<and> (map_get (pendingFetches s) (bd_requestId d) = None \<longrightarrow> s1 = s)"
proof -
  let ?s1 = "s\<lparr>pendingFetches := map_delete (pendingFetches s) (bd_requestId d),
            settled := settled s @ settles (pendingFetches s) d\<rparr>"
  have 1: "handleBridgeMessage (Some d) s = Inr ?s1"
    by (rule handle_fetch_response [OF assms(1)])
  have 2: "map_get (pendingFetches ?s1) (bd_requestId d) = None"
    by (simp add: map_get_delete_same)
  have 3: "length (settled ?s1) \<le> length (settled s) + 1"
    by (simp add: settles_def split: option.splits)
  have 4: "handleBridgeMessage (Some d') ?s1 = Inr ?s1"
    using 2 assms(3) by (intro absent_response_no_effect [OF assms(2)]) simp
  have 5: "\<forall>evs s2. deliver evs ?s1 = Inr s2 \<longrightarrow> handleBridgeMessage (Some d') s2 = Inr s2"
  proof (intro allI impI)
    fix evs s2
    assume run: "deliver evs ?s1 = Inr s2"
    have "map_get (pendingFetches s2) (bd_requestId d') = None"
    proof (cases "bd_requestId d")
      case None
      with assms(3) show ?thesis by (simp add: map_get_def)
    next
      case (Some j)
      with 2 have "pendingFetches ?s1 j = None" by (simp add: map_get_def)
      from deliver_keeps_absent [OF run this] Some assms(3) show ?thesis
        by (simp add: map_get_def)
    qed
    then show "handleBridgeMessage (Some d') s2 = Inr s2"
      by (rule absent_response_no_effect [OF assms(2)])
  qed
  have 6: "\<forall>j. Some j \<noteq> bd_requestId d \<longrightarrow> pendingFetches ?s1 j = pendingFetches s j"
    by (cases "bd_requestId d") (auto simp: map_delete_def)
  have 7: "map_get (pendingFetches s) (bd_requestId d) = None \<longrightarrow> ?s1 = s"
    by (simp add: map_delete_absent settles_def)
  show ?thesis
    by (rule exI [of _ ?s1]) (intro conjI 1 2 3 4 5 6 7)
qed

theorem duplicate_response_no_effect_witness:
  "\<exists>s1. handleBridgeMessage (Some (fetch_response ''fetch_1'' (ok_payload 200 ''one'')))
           (issue_all [(''fetch_1'', 1, ''https://svc.local/a'', no_init)] page_init) = Inr s1
     \<and> map_get (pendingFetches s1) (Some ''fetch_1'') = None
     \<and> handleBridgeMessage (Some (fetch_response ''fetch_1'' (ok_payload 500 ''again''))) s1
         = Inr s1"
proof -
  let ?d = "fetch_response ''fetch_1'' (ok_payload 200 ''one'')"
  let ?d' = "fetch_response ''fetch_1'' (ok_payload 500 ''again'')"
  have 1: "is_fetch_response ?d" and 2: "is_fetch_response ?d'"
    by (simp_all add: is_fetch_response_def fetch_response_def)
  have 3: "bd_requestId ?d' = bd_requestId ?d"
    by (simp add: fetch_response_def)
  have 4: "bd_requestId ?d = Some ''fetch_1''"
    by (simp add: fetch_response_def)
  from duplicate_response_no_effect [OF 1 2 3]
  show ?thesis
    unfolding 4 by blast
qed

section \<open>Eligibility: results\<close>











lemma evaluator_error_propagates:
  assumes "cached P = Some cache" and "cache \<noteq> []" and "JSON_parse P cache = Inr (JObject kvs)"
    and "map_of kvs ''domainRules'' = Some rules" and "truthy (Some rules)"
    and "matchCurrentTab P rules (location_origin P) = Inl e"
  shows "shouldProxyUrl P targetUrl = Inl e"
  using assms
  by (simp add: shouldProxyUrl_def readCachedConfig_def isEnabledForCurrentPage_def)









section \<open>Relay: results\<close>

text \<open>
  C7. For a fetch-request message the listener calls \<^verbatim>\<open>sendResponse\<close> at most once. When the
  payload is missing, when the \<^verbatim>\<open>Headers\<close> constructor throws, when \<^verbatim>\<open>fetch\<close> rejects, or when
  reading the response text rejects, the one reply is \<^verbatim>\<open>{ ok: false, error }\<close> with the
  message of the error; when every step succeeds, the one reply is
  \<^verbatim>\<open>{ ok: true, status, statusText, headers, body }\<close> with the values of the response.
  Whenever the proxied fetch settles there is exactly one reply.
\<close>

theorem fetch_request_one_reply:
  assumes "rm_type m = BRIDGE_MESSAGE_TYPE"
  shows "(rm_payload m = None \<longrightarrow>
            onMessage P (Some m) = ([ReplyError (message (destructure_undefined P))], True))
    \<and> (\<forall>request e. rm_payload m = Some request
            \<and> build_reqInit P (fr_init request) = Inl e \<longrightarrow>
            onMessage P (Some m) = ([ReplyError (message e)], True))
    \<and> (\<forall>request reqInit e. rm_payload m = Some request
            \<and> build_reqInit P (fr_init request) = Inr reqInit
            \<and> fetch P (fr_url request) reqInit = RejectedWith e \<longrightarrow>
            onMessage P (Some m) = ([ReplyError (message e)], True))
    \<and> (\<forall>request reqInit res e. rm_payload m = Some request
            \<and> build_reqInit P (fr_init request) = Inr reqInit
            \<and> fetch P (fr_url request) reqInit = Fulfilled res
            \<and> res_text res = RejectedWith e \<longrightarrow>
            onMessage P (Some m) = ([ReplyError (message e)], True))
    \<and> (\<forall>request reqInit res body. rm_payload m = Some request
            \<and> build_reqInit P (fr_init request) = Inr reqInit
            \<and> fetch P (fr_url request) reqInit = Fulfilled res
            \<and> res_text res = Fulfilled body \<longrightarrow>
            onMessage P (Some m) =
              ([ReplyOk (res_status res) (res_statusText res) (res_headers res) body], True))
    \<and> (handleProxiedFetch P (rm_payload m) \<noteq> Pending \<longrightarrow>
            length (fst (onMessage P (Some m))) = 1)
    \<and> length (fst (onMessage P (Some m))) \<le> 1"
  using assms
  by (auto simp: onMessage_def handleProxiedFetch_def
      split: option.splits sum.splits promise.splits)

theorem fetch_request_one_reply_witness:
  "onMessage ok_network (Some \<lparr>rm_type = BRIDGE_MESSAGE_TYPE,
       rm_payload = Some \<lparr>fr_url = ''https://svc.local/api'', fr_init = None\<rparr>\<rparr>)
     = ([ReplyOk 200 ''OK'' [] ''ok''], True)
   \<and> onMessage down_network (Some \<lparr>rm_type = BRIDGE_MESSAGE_TYPE,
       rm_payload = Some \<lparr>fr_url = ''https://svc.local/api'', fr_init = None\<rparr>\<rparr>)
     = ([ReplyError ''Failed to fetch''], True)"
proof -
  let ?m = "\<lparr>rm_type = BRIDGE_MESSAGE_TYPE,
       rm_payload = Some \<lparr>fr_url = ''https://svc.local/api'', fr_init = None\<rparr>\<rparr>"
  have t: "rm_type ?m = BRIDGE_MESSAGE_TYPE" by simp
  have up: "onMessage ok_network (Some ?m) = ([ReplyOk 200 ''OK'' [] ''ok''], True)"
    using fetch_request_one_reply [OF t, of ok_network]
    by (simp add: build_reqInit_def ok_network_def)
  have down: "onMessage down_network (Some ?m) = ([ReplyError ''Failed to fetch''], True)"
    using fetch_request_one_reply [OF t, of down_network]
    by (simp add: build_reqInit_def down_network_def)
  from up down show ?thesis by simp
qed

lemma cleanupSocket_removes: "i \<notin> fst ` set (sockets (cleanupSocket P i s))"
  by (auto simp: cleanupSocket_def Let_def delete_notin_dom map_of_eq_None_iff
      split: option.splits)

lemma cleanupSocket_others:
  "j \<noteq> i \<Longrightarrow> map_of (sockets (cleanupSocket P i s)) j = map_of (sockets s) j"
  by (auto simp: cleanupSocket_def Let_def map_of_delete split: option.splits)

text \<open>
  C8. After the handler has run on a ws-close message, the socket id of the message is not
  in the socket table: whether \<^verbatim>\<open>close\<close> returned or threw, and whether or not the id was in
  the table before. When \<^verbatim>\<open>close\<close> threw, an error event for the id has been posted. The
  entries of other ids are as before.
\<close>

theorem ws_close_removes_socket:
  assumes "msg_type msg = WS_CLOSE"
  shows "msg_wsId msg \<notin> fst ` set (sockets (port_onMessage P (Some msg) s))
    \<and> map_of (sockets (port_onMessage P (Some msg) s)) (msg_wsId msg) = None
    \<and> (\<forall>j. j \<noteq> msg_wsId msg \<longrightarrow>
          map_of (sockets (port_onMessage P (Some msg) s)) j = map_of (sockets s) j)
    \<and> (\<forall>ws e. map_of (sockets s) (msg_wsId msg) = Some ws
          \<and> ws_close P ws (msg_code msg) (msg_reason msg) = Some e \<longrightarrow>
          EvError (msg_wsId msg) (message_or e ''Close WebSocket failed'')
            \<in> set (port_posted (port_onMessage P (Some msg) s)))"
proof -
  let ?s1 = "(case map_of (sockets s) (msg_wsId msg) of
                  None \<Rightarrow> s
                | Some ws \<Rightarrow>
                    (let s' = s\<lparr>socket_calls := socket_calls s
                                   @ [CloseCall ws (msg_code msg) (msg_reason msg)]\<rparr>
                     in case ws_close P ws (msg_code msg) (msg_reason msg) of
                          None \<Rightarrow> s'
                        | Some e \<Rightarrow>
                            port_postMessage
                              (EvError (msg_wsId msg) (message_or e ''Close WebSocket failed''))
                              s'))"
  have run: "port_onMessage P (Some msg) s = cleanupSocket P (msg_wsId msg) ?s1"
    using assms by (simp add: port_onMessage_def WS_CLOSE_def WS_OPEN_def WS_SEND_def Let_def)
  have same: "sockets ?s1 = sockets s"
    by (simp add: port_postMessage_def Let_def split: option.splits)
  have 1: "msg_wsId msg \<notin> fst ` set (sockets (port_onMessage P (Some msg) s))"
    unfolding run by (rule cleanupSocket_removes)
  then have 2: "map_of (sockets (port_onMessage P (Some msg) s)) (msg_wsId msg) = None"
    by (simp add: map_of_eq_None_iff)
  have 3: "\<forall>j. j \<noteq> msg_wsId msg \<longrightarrow>
          map_of (sockets (port_onMessage P (Some msg) s)) j = map_of (sockets s) j"
    unfolding run by (simp add: cleanupSocket_others same)
  have 4: "\<forall>ws e. map_of (sockets s) (msg_wsId msg) = Some ws
          \<and> ws_close P ws (msg_code msg) (msg_reason msg) = Some e \<longrightarrow>
          EvError (msg_wsId msg) (message_or e ''Close WebSocket failed'')
            \<in> set (port_posted (port_onMessage P (Some msg) s))"
    unfolding run
    by (auto simp: cleanupSocket_def port_postMessage_def Let_def split: option.splits)
  from 1 2 3 4 show ?thesis by (intro conjI)
qed

text \<open>A tracked socket whose \<^verbatim>\<open>close\<close> throws, and an id that was never tracked.\<close>

theorem ws_close_removes_socket_witness:
  "map_of (sockets (port_onMessage throwing_sockets (Some (ws_close_message ''ws_1''))
             (relay_init\<lparr>sockets := [(''ws_1'', 7), (''ws_2'', 8)]\<rparr>))) ''ws_1'' = None
   \<and> map_of (sockets (port_onMessage throwing_sockets (Some (ws_close_message ''ws_1''))
             (relay_init\<lparr>sockets := [(''ws_1'', 7), (''ws_2'', 8)]\<rparr>))) ''ws_2'' = Some 8
   \<and> EvError ''ws_1'' ''InvalidAccessError''
       \<in> set (port_posted (port_onMessage throwing_sockets (Some (ws_close_message ''ws_1''))
             (relay_init\<lparr>sockets := [(''ws_1'', 7), (''ws_2'', 8)]\<rparr>)))
   \<and> map_of (sockets (port_onMessage throwing_sockets (Some (ws_close_message ''ws_9''))
             (relay_init\<lparr>sockets := [(''ws_1'', 7), (''ws_2'', 8)]\<rparr>))) ''ws_9'' = None"
proof -
  let ?s = "relay_init\<lparr>sockets := [(''ws_1'', 7), (''ws_2'', 8)]\<rparr>"
  have t: "msg_type (ws_close_message i) = WS_CLOSE" for i
    by (simp add: ws_close_message_def)
  have i: "msg_wsId (ws_close_message i) = i" for i
    by (simp add: ws_close_message_def)
  have look: "map_of (sockets ?s) ''ws_1'' = Some 7" "map_of (sockets ?s) ''ws_2'' = Some 8"
    by simp_all
  have thr: "ws_close throwing_sockets 7 (msg_code (ws_close_message ''ws_1''))
      (msg_reason (ws_close_message ''ws_1'')) = Some (JsError ''InvalidAccessError'')"
    by (simp add: throwing_sockets_def)
  have m: "message_or (JsError ''InvalidAccessError'') ''Close WebSocket failed''
      = ''InvalidAccessError''"
    by (simp add: message_or_def)
  note tracked = ws_close_removes_socket [OF t, of "''ws_1''" throwing_sockets ?s, unfolded i]
  note unknown = ws_close_removes_socket [OF t, of "''ws_9''" throwing_sockets ?s, unfolded i]
  have 1: "map_of (sockets (port_onMessage throwing_sockets (Some (ws_close_message ''ws_1''))
      ?s)) ''ws_1'' = None"
    by (rule tracked [THEN conjunct2, THEN conjunct1])
  have 2: "map_of (sockets (port_onMessage throwing_sockets (Some (ws_close_message ''ws_1''))
      ?s)) ''ws_2'' = Some 8"
    using tracked [THEN conjunct2, THEN conjunct2, THEN conjunct1, rule_format, of "''ws_2''"]
    by simp
  have 3: "EvError ''ws_1'' ''InvalidAccessError''
      \<in> set (port_posted (port_onMessage throwing_sockets (Some (ws_close_message ''ws_1'')) ?s))"
    using tracked [THEN conjunct2, THEN conjunct2, THEN conjunct2, rule_format,
        of 7 "JsError ''InvalidAccessError''"] look(1) thr
    by (simp only: m simp_thms)
  have 4: "map_of (sockets (port_onMessage throwing_sockets (Some (ws_close_message ''ws_9''))
      ?s)) ''ws_9'' = None"
    by (rule unknown [THEN conjunct2, THEN conjunct1])
  from 1 2 3 4 show ?thesis by (intro conjI)
qed

lemma close_each_calls:
  "socket_calls (close_each P wss s) = socket_calls s @ map (\<lambda>ws. CloseCall ws None None) wss"
  by (induction wss arbitrary: s) (auto simp: Let_def split: option.splits)

text \<open>
  C9. After the disconnect listener has run, the socket table is empty, and \<^verbatim>\<open>close()\<close> has
  been called on every socket that was in the table: once each, in table order, whatever
  the calls before it did, throwing included.
\<close>

theorem disconnect_closes_all:
  "sockets (port_onDisconnect P s) = []
   \<and> socket_calls (port_onDisconnect P s) =
       socket_calls s @ map (\<lambda>ws. CloseCall ws None None) (map snd (sockets s))
   \<and> (\<forall>ws\<in>snd ` set (sockets s).
         CloseCall ws None None \<in> set (socket_calls (port_onDisconnect P s)))"
  by (auto simp: port_onDisconnect_def close_each_calls)

theorem disconnect_closes_all_witness:
  "sockets (port_onDisconnect throwing_sockets
       (relay_init\<lparr>sockets := [(''ws_1'', 7), (''ws_2'', 8)]\<rparr>)) = []
   \<and> socket_calls (port_onDisconnect throwing_sockets
       (relay_init\<lparr>sockets := [(''ws_1'', 7), (''ws_2'', 8)]\<rparr>))
       = [CloseCall 7 None None, CloseCall 8 None None]"
  using disconnect_closes_all [of throwing_sockets "relay_init\<lparr>sockets := [(''ws_1'', 7), (''ws_2'', 8)]\<rparr>"]
  by (simp add: relay_init_def)

end
